theory Spec2Isabelle
  imports Main
begin

section \<open>The platform: JSON values, numbers and strings\<close>

text \<open>
  The class \<^verbatim>\<open>ApiClient\<close> (lines 43 to 181 of the source file that declares the
  types \<^verbatim>\<open>Task\<close> to \<^verbatim>\<open>TaskStatistics\<close>) sees JSON only through
  \<^verbatim>\<open>response.json()\<close>, the read of \<^verbatim>\<open>.detail\<close>, truthiness and
  \<^verbatim>\<open>JSON.stringify\<close>. A parsed JSON value is modelled as a datatype. An object holds
  its own properties in enumeration order with distinct keys, as the parser built it.
  Numbers are kept abstract (type \<open>'n\<close>): what the code observes of a number is given by
  the three functions of \<open>runtime\<close> below. Strings are lists of 8-bit characters.
\<close>

datatype 'n json =
    JNull
  | JBool bool
  | JNum 'n
  | JStr string
  | JArr "'n json list"
  | JObj "(string \<times> 'n json) list"

text \<open>The errors a call can be rejected with. \<open>Error m\<close> is \<^verbatim>\<open>new Error(m)\<close>;
  \<open>TypeError\<close> and \<open>ReferenceError\<close> are thrown by the language itself (reading a
  property of \<^verbatim>\<open>null\<close>, naming the undeclared \<^verbatim>\<open>window\<close>); \<open>SyntaxError\<close> is
  the rejection of \<^verbatim>\<open>response.json()\<close>; \<open>NetworkError\<close> is a rejection of
  \<^verbatim>\<open>fetch\<close> itself.\<close>

datatype js_error = Error string | TypeError | ReferenceError | SyntaxError | NetworkError

text \<open>\<^verbatim>\<open>options.headers\<close> has the type \<^verbatim>\<open>HeadersInit\<close>: a plain object of names and
  values, a \<^verbatim>\<open>Headers\<close> instance (given by its entries), or an array of pairs of a name
  and a value. A property of a plain object holds a string, or an array of strings (what
  the spread of an array of pairs leaves under an index).\<close>

datatype header_value = HeaderString string | HeaderArray "string list"

datatype headers_init =
    PlainObject "string \<rightharpoonup> header_value"
  | HeadersInstance "(string \<times> string) list"
  | PairArray "(string \<times> string) list"

text \<open>The part of \<^verbatim>\<open>RequestInit\<close> the client uses. The field of the HTTP method is
  \<open>httpMethod\<close>; \<open>headers = None\<close> is an absent \<^verbatim>\<open>options.headers\<close>.\<close>

record request_init =
  httpMethod :: "string option"
  body :: "string option"
  headers :: "headers_init option"

text \<open>A response: \<open>json = None\<close> is a \<^verbatim>\<open>response.json()\<close> that rejects (the body is
  missing or is not JSON text).\<close>

record 'n response =
  status :: nat
  statusText :: string
  json :: "'n json option"

record 'n runtime =
  fetch :: "string \<Rightarrow> request_init \<Rightarrow> js_error + 'n response"
  isFalsyNumber :: "'n \<Rightarrow> bool"
  numberToString :: "'n \<Rightarrow> string"
  numberToJSON :: "'n \<Rightarrow> string"

text \<open>\<^verbatim>\<open>response.ok\<close>: the status is in the range 200 to 299.\<close>

definition ok :: "'n response \<Rightarrow> bool" where
  "ok r = (200 \<le> status r \<and> status r \<le> 299)"

subsection \<open>Truthiness and property access\<close>

text \<open>\<open>None\<close> stands for \<^verbatim>\<open>undefined\<close>.\<close>

fun truthy :: "'n runtime \<Rightarrow> 'n json option \<Rightarrow> bool" where
  "truthy rt None = False"
| "truthy rt (Some JNull) = False"
| "truthy rt (Some (JBool b)) = b"
| "truthy rt (Some (JNum n)) = (\<not> isFalsyNumber rt n)"
| "truthy rt (Some (JStr s)) = (s \<noteq> [])"
| "truthy rt (Some (JArr xs)) = True"
| "truthy rt (Some (JObj ps)) = True"

text \<open>\<^verbatim>\<open>errorData.detail\<close>: a \<open>TypeError\<close> on \<^verbatim>\<open>null\<close>, the property of an
  object, and \<^verbatim>\<open>undefined\<close> on a boolean, a number, a string or an array.\<close>

fun detail :: "'n json \<Rightarrow> js_error + 'n json option" where
  "detail JNull = Inl TypeError"
| "detail (JObj ps) = Inr (map_of ps ''detail'')"
| "detail (JBool b) = Inr None"
| "detail (JNum n) = Inr None"
| "detail (JStr s) = Inr None"
| "detail (JArr xs) = Inr None"

subsection \<open>\<^verbatim>\<open>JSON.stringify\<close> and decimal numerals\<close>

definition hexDigit :: "nat \<Rightarrow> char" where
  "hexDigit n = ''0123456789abcdef'' ! (n mod 16)"

definition quoteChar :: "char \<Rightarrow> string" where
  "quoteChar c =
     (if c = CHR 0x22 then [CHR 0x5C, CHR 0x22]
      else if c = CHR 0x5C then [CHR 0x5C, CHR 0x5C]
      else if c = CHR 0x08 then [CHR 0x5C, CHR ''b'']
      else if c = CHR 0x0C then [CHR 0x5C, CHR ''f'']
      else if c = CHR 0x0A then [CHR 0x5C, CHR ''n'']
      else if c = CHR 0x0D then [CHR 0x5C, CHR ''r'']
      else if c = CHR 0x09 then [CHR 0x5C, CHR ''t'']
      else if (of_char c :: nat) < 32 then
        [CHR 0x5C, CHR ''u'', CHR ''0'', CHR ''0'',
         hexDigit ((of_char c :: nat) div 16), hexDigit ((of_char c :: nat) mod 16)]
      else [c])"

definition quoteJSONString :: "string \<Rightarrow> string" where
  "quoteJSONString s = [CHR 0x22] @ concat (map quoteChar s) @ [CHR 0x22]"

fun joinWith :: "string \<Rightarrow> string list \<Rightarrow> string" where
  "joinWith sep [] = []"
| "joinWith sep [x] = x"
| "joinWith sep (x # y # ys) = x @ sep @ joinWith sep (y # ys)"

fun JSON_stringify :: "'n runtime \<Rightarrow> 'n json \<Rightarrow> string" where
  "JSON_stringify rt JNull = ''null''"
| "JSON_stringify rt (JBool b) = (if b then ''true'' else ''false'')"
| "JSON_stringify rt (JNum n) = numberToJSON rt n"
| "JSON_stringify rt (JStr s) = quoteJSONString s"
| "JSON_stringify rt (JArr xs) = ''['' @ joinWith '','' (map (JSON_stringify rt) xs) @ '']''"
| "JSON_stringify rt (JObj ps) =
     ''{'' @ joinWith '',''
        (map (\<lambda>p. quoteJSONString (fst p) @ '':'' @ JSON_stringify rt (snd p)) ps) @ ''}''"

text \<open>The decimal numeral of a status code, as a template literal renders it.\<close>

function showNat :: "nat \<Rightarrow> string" where
  "showNat n =
     (if n < 10 then [''0123456789'' ! n] else showNat (n div 10) @ [''0123456789'' ! (n mod 10)])"
  by pat_completeness auto
termination
  by (relation "measure id") auto

declare showNat.simps [simp del]

text \<open>The number a string of decimal digits stands for.\<close>

definition decimalValue :: "string \<Rightarrow> nat" where
  "decimalValue s = foldl (\<lambda>a c. 10 * a + (of_char c - 48)) 0 s"

section \<open>The browser state the client reads and writes\<close>

text \<open>
  \<open>window = None\<close> is an execution context where \<^verbatim>\<open>typeof window\<close> is
  \<^verbatim>\<open>'undefined'\<close> (server-side rendering): there is no client-side storage and
  nothing to navigate. In a browser, \<open>localStorage\<close> is the key-value storage and
  \<open>location_href\<close> lists the values assigned to \<^verbatim>\<open>window.location.href\<close>, oldest
  first. \<open>fetched\<close> lists the calls of \<^verbatim>\<open>fetch\<close>, oldest first, and \<open>jsonReads\<close>
  counts the calls of \<^verbatim>\<open>response.json()\<close>. In a browser the storage is taken to be
  available (\<^verbatim>\<open>getItem\<close> and \<^verbatim>\<open>removeItem\<close> do not throw). The console output is
  diagnostic only and is left out.
\<close>

record window =
  localStorage :: "string \<rightharpoonup> string"
  location_href :: "string list"

record world =
  window :: "window option"
  fetched :: "(string \<times> request_init) list"
  jsonReads :: nat

datatype 'n outcome = ResolvedUndefined | Resolved "'n json" | Rejected js_error

record ApiClient =
  baseUrl :: string

text \<open>The constructor (lines 46 to 48): the argument is
  \<^verbatim>\<open>process.env.NEXT_PUBLIC_API_BASE_URL\<close>, and \<^verbatim>\<open>||\<close> takes the default for an unset
  or empty value.\<close>

definition newApiClient :: "string option \<Rightarrow> ApiClient" where
  "newApiClient env =
     \<lparr>baseUrl = (case env of
                   None \<Rightarrow> ''http://localhost:8000''
                 | Some u \<Rightarrow> if u \<noteq> [] then u else ''http://localhost:8000'')\<rparr>"

section \<open>The request helper\<close>

text \<open>Lines 52 to 55: \<^verbatim>\<open>localStorage.getItem('accessToken')\<close> behind the check of
  \<^verbatim>\<open>window\<close>.\<close>

definition readToken :: "world \<Rightarrow> string option" where
  "readToken w = (case window w of None \<Rightarrow> None | Some win \<Rightarrow> localStorage win ''accessToken'')"

text \<open>Line 59, the spread \<^verbatim>\<open>...(token ? { 'Authorization': `Bearer ${token}` } : {})\<close>:
  the empty string is falsy, like \<^verbatim>\<open>null\<close>.\<close>

definition bearerHeader :: "string option \<Rightarrow> (string \<rightharpoonup> header_value)" where
  "bearerHeader token =
     (case token of
        None \<Rightarrow> Map.empty
      | Some t \<Rightarrow>
          if t \<noteq> [] then [''Authorization'' \<mapsto> HeaderString (''Bearer '' @ t)] else Map.empty)"

text \<open>Line 60, the spread \<^verbatim>\<open>...options.headers\<close>: the own enumerable properties of the
  value. An absent value has none; a plain object has its entries; a \<^verbatim>\<open>Headers\<close>
  instance keeps its entries in an internal list and has none; an array has its elements
  under the indices \<^verbatim>\<open>0\<close>, \<^verbatim>\<open>1\<close>, and so on, so each pair lands under its index.\<close>

definition spreadHeaders :: "headers_init option \<Rightarrow> (string \<rightharpoonup> header_value)" where
  "spreadHeaders hs =
     (case hs of
        None \<Rightarrow> Map.empty
      | Some (PlainObject h) \<Rightarrow> h
      | Some (HeadersInstance entries) \<Rightarrow> Map.empty
      | Some (PairArray pairs) \<Rightarrow>
          map_of (zip (map showNat [0 ..< length pairs])
                      (map (\<lambda>p. HeaderArray [fst p, snd p]) pairs)))"

text \<open>Lines 57 to 61, the object literal of the headers: a later entry overwrites an
  earlier one of the same name.\<close>

definition mergeHeaders :: "string option \<Rightarrow> request_init \<Rightarrow> (string \<rightharpoonup> header_value)" where
  "mergeHeaders token options =
     [''Content-Type'' \<mapsto> HeaderString ''application/json''] ++ bearerHeader token
       ++ spreadHeaders (headers options)"

text \<open>Lines 73 and 92: \<^verbatim>\<open>await response.json().catch(() => ({}))\<close>.\<close>

definition errorData :: "'n response \<Rightarrow> 'n json" where
  "errorData r = (case json r of None \<Rightarrow> JObj [] | Some d \<Rightarrow> d)"

text \<open>Lines 74 to 76, the message of an authorization failure:
  \<^verbatim>\<open>typeof errorData.detail === 'string' ? errorData.detail
     : JSON.stringify(errorData.detail || 'Unauthorized')\<close>.\<close>

definition authErrorDetail :: "'n runtime \<Rightarrow> 'n json \<Rightarrow> js_error + string" where
  "authErrorDetail rt e =
     (case detail e of
        Inl err \<Rightarrow> Inl err
      | Inr d \<Rightarrow>
          Inr (case d of
                 Some (JStr s) \<Rightarrow> s
               | Some v \<Rightarrow> JSON_stringify rt (if truthy rt d then v else JStr ''Unauthorized'')
               | None \<Rightarrow> JSON_stringify rt (JStr ''Unauthorized'')))"

text \<open>Lines 93 to 95, the message of another failure:
  \<^verbatim>\<open>typeof errorData.detail === 'string' ? errorData.detail
     : (errorData.detail ? JSON.stringify(errorData.detail)
        : `API request failed: ${response.status} - ${response.statusText}`)\<close>.\<close>

definition requestFailedMessage :: "'n response \<Rightarrow> string" where
  "requestFailedMessage r = ''API request failed: '' @ showNat (status r) @ '' - '' @ statusText r"

definition apiErrorDetail :: "'n runtime \<Rightarrow> 'n response \<Rightarrow> 'n json \<Rightarrow> js_error + string" where
  "apiErrorDetail rt r e =
     (case detail e of
        Inl err \<Rightarrow> Inl err
      | Inr d \<Rightarrow>
          Inr (case d of
                 Some (JStr s) \<Rightarrow> s
               | Some v \<Rightarrow> if truthy rt d then JSON_stringify rt v else requestFailedMessage r
               | None \<Rightarrow> requestFailedMessage r))"

text \<open>The guarded removal of both tokens, written twice in the source (lines 81 to 84
  in the authorization failure of \<^verbatim>\<open>request\<close>, lines 168 to 171 in \<^verbatim>\<open>logout\<close>).\<close>

definition removeTokens :: "world \<Rightarrow> world" where
  "removeTokens w =
     (case window w of
        None \<Rightarrow> w
      | Some win \<Rightarrow>
          w\<lparr>window := Some (win\<lparr>localStorage :=
              (localStorage win)(''accessToken'' := None, ''refreshToken'' := None)\<rparr>)\<rparr>)"

text \<open>Line 87: \<^verbatim>\<open>window.location.href = url\<close>, with no check of \<^verbatim>\<open>window\<close>. Naming
  an undeclared variable throws a \<open>ReferenceError\<close>.\<close>

definition assignLocationHref :: "string \<Rightarrow> world \<Rightarrow> js_error + world" where
  "assignLocationHref u w =
     (case window w of
        None \<Rightarrow> Inl ReferenceError
      | Some win \<Rightarrow> Inr (w\<lparr>window := Some (win\<lparr>location_href := location_href win @ [u]\<rparr>)\<rparr>))"

text \<open>A call of \<^verbatim>\<open>response.json()\<close> is counted.\<close>

definition readJson :: "world \<Rightarrow> world" where
  "readJson w = w\<lparr>jsonReads := Suc (jsonReads w)\<rparr>"

text \<open>Lines 66 to 69, the two arguments of \<^verbatim>\<open>fetch\<close>: the URL and
  \<^verbatim>\<open>{ ...options, headers }\<close>.\<close>

definition fetchArgs :: "ApiClient \<Rightarrow> string \<Rightarrow> request_init \<Rightarrow> world \<Rightarrow> string \<times> request_init" where
  "fetchArgs c endpoint options w =
     (let token = readToken w;
          hdrs = mergeHeaders token options
      in (baseUrl c @ endpoint, options\<lparr>headers := Some (PlainObject hdrs)\<rparr>))"

text \<open>\<^verbatim>\<open>ApiClient.request\<close> (lines 50 to 109). The result is the settlement of the
  promise and the state the call leaves. A rejection of \<^verbatim>\<open>fetch\<close> is passed on; then
  the branches follow the source: 401 or 403 (lines 72 to 89), another status that is not
  a success (lines 91 to 99), 204 (lines 102 to 104), and the parsed body (lines 106 to
  108), where a rejection of \<^verbatim>\<open>response.json()\<close> is passed on as well.\<close>

definition request ::
  "'n runtime \<Rightarrow> ApiClient \<Rightarrow> string \<Rightarrow> request_init \<Rightarrow> world \<Rightarrow> 'n outcome \<times> world" where
  "request rt c endpoint options w =
     (let args = fetchArgs c endpoint options w;
          w1 = w\<lparr>fetched := fetched w @ [args]\<rparr>
      in case fetch rt (fst args) (snd args) of
           Inl err \<Rightarrow> (Rejected err, w1)
         | Inr r \<Rightarrow>
             if status r = 401 \<or> status r = 403 then
               (case authErrorDetail rt (errorData r) of
                  Inl err \<Rightarrow> (Rejected err, readJson w1)
                | Inr errorDetail \<Rightarrow>
                    (case assignLocationHref ''/auth/signin'' (removeTokens (readJson w1)) of
                       Inl err \<Rightarrow> (Rejected err, removeTokens (readJson w1))
                     | Inr w2 \<Rightarrow> (Rejected (Error errorDetail), w2)))
             else if \<not> ok r then
               (case apiErrorDetail rt r (errorData r) of
                  Inl err \<Rightarrow> (Rejected err, readJson w1)
                | Inr errorDetail \<Rightarrow> (Rejected (Error errorDetail), readJson w1))
             else if status r = 204 then (ResolvedUndefined, w1)
             else
               (case json r of
                  None \<Rightarrow> (Rejected SyntaxError, readJson w1)
                | Some data \<Rightarrow> (Resolved data, readJson w1)))"

text \<open>What \<^verbatim>\<open>fetch\<close> returns for the call \<^verbatim>\<open>request\<close> makes from \<open>w\<close>: the
  theorems below name the response by it.\<close>

definition answer ::
  "'n runtime \<Rightarrow> ApiClient \<Rightarrow> string \<Rightarrow> request_init \<Rightarrow> world \<Rightarrow> js_error + 'n response" where
  "answer rt c endpoint options w =
     fetch rt (fst (fetchArgs c endpoint options w)) (snd (fetchArgs c endpoint options w))"

section \<open>The operations of the client\<close>

text \<open>Lines 112 to 180. An operation without options passes \<^verbatim>\<open>{}\<close>, the default of
  \<^verbatim>\<open>request\<close>; no operation passes headers.\<close>

definition noOptions :: request_init where
  "noOptions = \<lparr>httpMethod = None, body = None, headers = None\<rparr>"

definition withBody :: "string \<Rightarrow> string \<Rightarrow> request_init" where
  "withBody m b = \<lparr>httpMethod = Some m, body = Some b, headers = None\<rparr>"

text \<open>The argument objects (\<^verbatim>\<open>TaskCreate\<close>, \<^verbatim>\<open>TaskUpdate\<close>, \<^verbatim>\<open>RegisterRequest\<close>,
  the credentials) are given as the JSON values \<^verbatim>\<open>JSON.stringify\<close> reads.\<close>

definition getTasks :: "'n runtime \<Rightarrow> ApiClient \<Rightarrow> world \<Rightarrow> 'n outcome \<times> world" where
  "getTasks rt c = request rt c ''/tasks/'' noOptions"

definition createTask :: "'n runtime \<Rightarrow> ApiClient \<Rightarrow> 'n json \<Rightarrow> world \<Rightarrow> 'n outcome \<times> world" where
  "createTask rt c task = request rt c ''/tasks/'' (withBody ''POST'' (JSON_stringify rt task))"

definition getTaskById :: "'n runtime \<Rightarrow> ApiClient \<Rightarrow> 'n \<Rightarrow> world \<Rightarrow> 'n outcome \<times> world" where
  "getTaskById rt c i = request rt c (''/tasks/'' @ numberToString rt i) noOptions"

definition updateTask ::
  "'n runtime \<Rightarrow> ApiClient \<Rightarrow> 'n \<Rightarrow> 'n json \<Rightarrow> world \<Rightarrow> 'n outcome \<times> world" where
  "updateTask rt c i task =
     request rt c (''/tasks/'' @ numberToString rt i) (withBody ''PUT'' (JSON_stringify rt task))"

definition deleteTask :: "'n runtime \<Rightarrow> ApiClient \<Rightarrow> 'n \<Rightarrow> world \<Rightarrow> 'n outcome \<times> world" where
  "deleteTask rt c i =
     request rt c (''/tasks/'' @ numberToString rt i)
       \<lparr>httpMethod = Some ''DELETE'', body = None, headers = None\<rparr>"

definition toggleTaskCompletion ::
  "'n runtime \<Rightarrow> ApiClient \<Rightarrow> 'n \<Rightarrow> bool \<Rightarrow> world \<Rightarrow> 'n outcome \<times> world" where
  "toggleTaskCompletion rt c i completed =
     request rt c (''/tasks/'' @ numberToString rt i @ ''/complete'')
       (withBody ''PATCH'' (JSON_stringify rt (JObj [(''completed'', JBool completed)])))"

definition getTaskStatistics :: "'n runtime \<Rightarrow> ApiClient \<Rightarrow> world \<Rightarrow> 'n outcome \<times> world" where
  "getTaskStatistics rt c = request rt c ''/tasks/statistics'' noOptions"

definition register :: "'n runtime \<Rightarrow> ApiClient \<Rightarrow> 'n json \<Rightarrow> world \<Rightarrow> 'n outcome \<times> world" where
  "register rt c userData =
     request rt c ''/auth/register'' (withBody ''POST'' (JSON_stringify rt userData))"

definition login :: "'n runtime \<Rightarrow> ApiClient \<Rightarrow> 'n json \<Rightarrow> world \<Rightarrow> 'n outcome \<times> world" where
  "login rt c credentials =
     request rt c ''/auth/login'' (withBody ''POST'' (JSON_stringify rt credentials))"

text \<open>\<^verbatim>\<open>logout\<close> always resolves with no value; the model returns the state it leaves.\<close>

definition logout :: "world \<Rightarrow> world" where
  "logout w = removeTokens w"

definition isAuthenticated :: "world \<Rightarrow> bool" where
  "isAuthenticated w =
     (case window w of
        None \<Rightarrow> False
      | Some win \<Rightarrow> (case localStorage win ''accessToken'' of None \<Rightarrow> False | Some t \<Rightarrow> t \<noteq> []))"

section \<open>Every operation that issues a request\<close>

text \<open>\<^verbatim>\<open>request\<close> is private: the requests of the client are those of its nine
  public operations, none of which passes headers of its own.\<close>

datatype 'n api_call =
    GetTasks
  | CreateTask "'n json"
  | GetTaskById 'n
  | UpdateTask 'n "'n json"
  | DeleteTask 'n
  | ToggleTaskCompletion 'n bool
  | GetTaskStatistics
  | Register "'n json"
  | Login "'n json"

fun invoke :: "'n runtime \<Rightarrow> ApiClient \<Rightarrow> 'n api_call \<Rightarrow> world \<Rightarrow> 'n outcome \<times> world" where
  "invoke rt c GetTasks = getTasks rt c"
| "invoke rt c (CreateTask task) = createTask rt c task"
| "invoke rt c (GetTaskById i) = getTaskById rt c i"
| "invoke rt c (UpdateTask i task) = updateTask rt c i task"
| "invoke rt c (DeleteTask i) = deleteTask rt c i"
| "invoke rt c (ToggleTaskCompletion i completed) = toggleTaskCompletion rt c i completed"
| "invoke rt c GetTaskStatistics = getTaskStatistics rt c"
| "invoke rt c (Register userData) = register rt c userData"
| "invoke rt c (Login credentials) = login rt c credentials"

section \<open>Concrete inputs\<close>

text \<open>A runtime whose numbers are natural numbers and whose server answers every
  request with the same response; a browser with a given storage; a server-side
  context.\<close>

definition replying :: "nat response \<Rightarrow> nat runtime" where
  "replying r =
     \<lparr>fetch = (\<lambda>u init. Inr r), isFalsyNumber = (\<lambda>n. n = 0),
      numberToString = showNat, numberToJSON = showNat\<rparr>"

definition browser :: "(string \<times> string) list \<Rightarrow> world" where
  "browser entries =
     \<lparr>window = Some \<lparr>localStorage = map_of entries, location_href = []\<rparr>,
      fetched = [], jsonReads = 0\<rparr>"

definition serverSide :: world where
  "serverSide = \<lparr>window = None, fetched = [], jsonReads = 0\<rparr>"

definition localClient :: ApiClient where
  "localClient = newApiClient None"

text \<open>What a state holds under the two keys of the client (\<open>None\<close> outside a
  browser), and what was assigned to the location.\<close>

definition tokens :: "world \<Rightarrow> (string option \<times> string option) option" where
  "tokens w =
     (case window w of
        None \<Rightarrow> None
      | Some win \<Rightarrow> Some (localStorage win ''accessToken'', localStorage win ''refreshToken''))"

definition navigations :: "world \<Rightarrow> string list" where
  "navigations w = (case window w of None \<Rightarrow> [] | Some win \<Rightarrow> location_href win)"

text \<open>The headers of the last call of \<^verbatim>\<open>fetch\<close>: the entries of the plain object
  \<^verbatim>\<open>request\<close> passes, by their exact names, each value as the string \<^verbatim>\<open>fetch\<close> reads
  (an array reads as its elements joined by commas).\<close>

definition headerText :: "header_value \<Rightarrow> string" where
  "headerText v = (case v of HeaderString s \<Rightarrow> s | HeaderArray xs \<Rightarrow> joinWith '','' xs)"

definition sentHeaders :: "world \<Rightarrow> (string \<rightharpoonup> string)" where
  "sentHeaders w =
     (if fetched w = [] then Map.empty
      else (case headers (snd (last (fetched w))) of
              Some (PlainObject h) \<Rightarrow> (\<lambda>k. map_option headerText (h k))
            | _ \<Rightarrow> Map.empty))"

text \<open>A call succeeded when its promise was not rejected.\<close>

definition succeeded :: "'n outcome \<Rightarrow> bool" where
  "succeeded out = (case out of Rejected err \<Rightarrow> False | ResolvedUndefined \<Rightarrow> True | Resolved v \<Rightarrow> True)"

section \<open>The rendering of numerals and strings, on examples\<close>

lemma showNat_examples: "showNat 0 = ''0'' \<and> showNat 204 = ''204'' \<and> showNat 1000 = ''1000''"
  by (simp add: showNat.simps)

lemma quoteJSONString_example:
  "quoteJSONString [CHR ''a'', CHR 0x22, CHR 0x0A, CHR 0x5C, CHR 0x1F]
     = [CHR 0x22, CHR ''a'', CHR 0x5C, CHR 0x22, CHR 0x5C, CHR ''n'', CHR 0x5C, CHR 0x5C,
        CHR 0x5C, CHR ''u'', CHR ''0'', CHR ''0'', CHR ''1'', CHR ''f'', CHR 0x22]"
  by (simp add: quoteJSONString_def quoteChar_def hexDigit_def)

text \<open>\<open>showNat\<close> writes the decimal digits of its argument.\<close>

lemma digit_value: "d < 10 \<Longrightarrow> (of_char (''0123456789'' ! d) :: nat) - 48 = d"
proof -
  assume "d < 10"
  then have "d \<in> {0, 1, 2, 3, 4, 5, 6, 7, 8, 9}" by auto
  then show ?thesis by auto
qed

lemma decimalValue_showNat: "decimalValue (showNat n) = n"
proof (induction n rule: showNat.induct)
  case (1 n)
  show ?case
  proof (cases "n < 10")
    case True
    then show ?thesis
      by (subst showNat.simps) (simp add: decimalValue_def digit_value)
  next
    case False
    with 1 have "decimalValue (showNat (n div 10)) = n div 10" by simp
    with False show ?thesis
      by (subst showNat.simps) (simp add: decimalValue_def digit_value)
  qed
qed

section \<open>Auxiliary facts about \<^verbatim>\<open>request\<close>\<close>

lemma request_fetched:
  "fetched (snd (request rt c e opts w)) = fetched w @ [fetchArgs c e opts w]"
  by (simp add: request_def Let_def readJson_def removeTokens_def assignLocationHref_def
      split: sum.splits option.splits)

text \<open>Once the server has answered with a response, the call is decided by that response.\<close>

lemma request_unfold:
  assumes "answer rt c e opts w = Inr r"
  shows "request rt c e opts w =
     (let w1 = w\<lparr>fetched := fetched w @ [fetchArgs c e opts w]\<rparr> in
      if status r = 401 \<or> status r = 403 then
        (case authErrorDetail rt (errorData r) of
           Inl err \<Rightarrow> (Rejected err, readJson w1)
         | Inr errorDetail \<Rightarrow>
             (case assignLocationHref ''/auth/signin'' (removeTokens (readJson w1)) of
                Inl err \<Rightarrow> (Rejected err, removeTokens (readJson w1))
              | Inr w2 \<Rightarrow> (Rejected (Error errorDetail), w2)))
      else if \<not> ok r then
        (case apiErrorDetail rt r (errorData r) of
           Inl err \<Rightarrow> (Rejected err, readJson w1)
         | Inr errorDetail \<Rightarrow> (Rejected (Error errorDetail), readJson w1))
      else if status r = 204 then (ResolvedUndefined, w1)
      else
        (case json r of
           None \<Rightarrow> (Rejected SyntaxError, readJson w1)
         | Some data \<Rightarrow> (Resolved data, readJson w1)))"
  using assms by (simp add: request_def answer_def Let_def)

lemma window_readJson: "window (readJson w) = window w"
  by (simp add: readJson_def)

lemma request_sent_headers:
  "sentHeaders (snd (request rt c e opts w)) k =
     map_option headerText (mergeHeaders (readToken w) opts k)"
  by (simp add: sentHeaders_def request_fetched fetchArgs_def Let_def)

lemma answer_replying: "answer (replying r) c e opts w = Inr r"
  by (simp add: answer_def replying_def)

text \<open>Only the JSON value \<^verbatim>\<open>null\<close> makes the read of \<^verbatim>\<open>errorData.detail\<close> throw.\<close>

lemma detail_errorData_total:
  "json r \<noteq> Some JNull \<Longrightarrow> \<exists>d. detail (errorData r) = Inr d"
  by (cases "json r"; simp add: errorData_def) (rename_tac v, case_tac v; simp)

text \<open>The authorization failure, once a message has been extracted: in a browser both
  tokens are removed, the sign-in route is assigned to the location and the message is
  thrown; outside a browser the assignment throws instead.\<close>

lemma request_auth_failure:
  assumes "answer rt c e opts w = Inr r" and "status r = 401 \<or> status r = 403"
    and "authErrorDetail rt (errorData r) = Inr msg"
  shows "request rt c e opts w =
     (case window w of
        None \<Rightarrow> (Rejected ReferenceError,
                  w\<lparr>fetched := fetched w @ [fetchArgs c e opts w], jsonReads := Suc (jsonReads w)\<rparr>)
      | Some win \<Rightarrow> (Rejected (Error msg),
          w\<lparr>window := Some \<lparr>localStorage =
                  (localStorage win)(''accessToken'' := None, ''refreshToken'' := None),
                location_href = location_href win @ [''/auth/signin'']\<rparr>,
            fetched := fetched w @ [fetchArgs c e opts w], jsonReads := Suc (jsonReads w)\<rparr>))"
  using assms(2,3)
  by (auto simp: request_unfold[OF assms(1)] Let_def removeTokens_def assignLocationHref_def
      readJson_def split: option.splits)

lemma request_auth_failure_null:
  assumes "answer rt c e opts w = Inr r" and "status r = 401 \<or> status r = 403"
    and "json r = Some JNull"
  shows "request rt c e opts w =
     (Rejected TypeError,
      w\<lparr>fetched := fetched w @ [fetchArgs c e opts w], jsonReads := Suc (jsonReads w)\<rparr>)"
  using assms(2,3)
  by (auto simp: request_unfold[OF assms(1)] Let_def authErrorDetail_def errorData_def readJson_def)

text \<open>The example of the specification: in a browser, \<^verbatim>\<open>login\<close> answered by 401 with the
  body \<^verbatim>\<open>{"detail":"bad credentials"}\<close> removes both tokens, navigates and throws that
  message.\<close>

lemma login_bad_credentials_in_browser:
  "fst (login (replying \<lparr>status = 401, statusText = ''Unauthorized'',
                 json = Some (JObj [(''detail'', JStr ''bad credentials'')])\<rparr>)
          localClient (JObj [(''email'', JStr ''a@b.com''), (''password'', JStr ''x'')])
          (browser [(''accessToken'', ''t''), (''refreshToken'', ''r'')]))
     = Rejected (Error ''bad credentials'')
   \<and> tokens (snd (login (replying \<lparr>status = 401, statusText = ''Unauthorized'',
                 json = Some (JObj [(''detail'', JStr ''bad credentials'')])\<rparr>)
          localClient (JObj [(''email'', JStr ''a@b.com''), (''password'', JStr ''x'')])
          (browser [(''accessToken'', ''t''), (''refreshToken'', ''r'')])))
     = Some (None, None)
   \<and> navigations (snd (login (replying \<lparr>status = 401, statusText = ''Unauthorized'',
                 json = Some (JObj [(''detail'', JStr ''bad credentials'')])\<rparr>)
          localClient (JObj [(''email'', JStr ''a@b.com''), (''password'', JStr ''x'')])
          (browser [(''accessToken'', ''t''), (''refreshToken'', ''r'')]))) = [''/auth/signin'']"
  by (simp add: login_def
      request_auth_failure [OF answer_replying, where msg = "''bad credentials''"]
      authErrorDetail_def errorData_def tokens_def navigations_def browser_def)

text \<open>A failure other than 401 and 403: the call is rejected, the storage and the
  location are as before, and the error carries the \<^verbatim>\<open>detail\<close> string of the body when
  there is one, and the synthesized message when the body is missing or unparsable.\<close>

lemma request_other_failure:
  assumes "answer rt c e opts w = Inr r" and "\<not> ok r" and "status r \<noteq> 401" and "status r \<noteq> 403"
  shows "\<exists>err. fst (request rt c e opts w) = Rejected err
           \<and> window (snd (request rt c e opts w)) = window w
           \<and> (json r = None \<longrightarrow>
                err = Error (''API request failed: '' @ showNat (status r) @ '' - '' @ statusText r))
           \<and> (\<forall>ps s. json r = Some (JObj ps) \<and> map_of ps ''detail'' = Some (JStr s) \<longrightarrow> err = Error s)"
  using assms(2-)
  by (auto simp: request_unfold[OF assms(1)] Let_def apiErrorDetail_def errorData_def
      requestFailedMessage_def window_readJson split: sum.splits option.splits json.splits)

lemma request_other_failure_example:
  "fst (getTasks (replying \<lparr>status = 500, statusText = ''Internal Server Error'', json = None\<rparr>)
          localClient (browser [(''accessToken'', ''t''), (''refreshToken'', ''r'')]))
     = Rejected (Error ''API request failed: 500 - Internal Server Error'')
   \<and> tokens (snd (getTasks (replying \<lparr>status = 500, statusText = ''Internal Server Error'', json = None\<rparr>)
          localClient (browser [(''accessToken'', ''t''), (''refreshToken'', ''r'')])))
     = Some (Some ''t'', Some ''r'')
   \<and> navigations (snd (getTasks (replying \<lparr>status = 500, statusText = ''Internal Server Error'', json = None\<rparr>)
          localClient (browser [(''accessToken'', ''t''), (''refreshToken'', ''r'')]))) = []"
  using request_other_failure [OF answer_replying,
        of "\<lparr>status = 500, statusText = ''Internal Server Error'', json = None\<rparr>"
        localClient "''/tasks/''" noOptions "browser [(''accessToken'', ''t''), (''refreshToken'', ''r'')]"]
  by (auto simp: ok_def getTasks_def tokens_def navigations_def browser_def showNat.simps)

text \<open>The example of the specification for \<^verbatim>\<open>createTask\<close>: the request that is
  sent and the object that is returned unchanged.\<close>

lemma createTask_example:
  "createTask
     (replying \<lparr>status = 201, statusText = ''Created'',
        json = Some (JObj [(''id'', JNum 1), (''title'', JStr ''Buy milk''), (''description'', JNull),
                 (''completed'', JBool False), (''user_id'', JStr ''u1''),
                 (''created_at'', JStr ''t''), (''updated_at'', JStr ''t'')])\<rparr>)
     localClient (JObj [(''title'', JStr ''Buy milk'')]) serverSide
   = (Resolved (JObj [(''id'', JNum 1), (''title'', JStr ''Buy milk''), (''description'', JNull),
                 (''completed'', JBool False), (''user_id'', JStr ''u1''),
                 (''created_at'', JStr ''t''), (''updated_at'', JStr ''t'')]),
      \<lparr>window = None,
       fetched = [(''http://localhost:8000/tasks/'',
          \<lparr>httpMethod = Some ''POST'',
           body = Some (''{'' @ [CHR 0x22] @ ''title'' @ [CHR 0x22] @ '':'' @ [CHR 0x22]
                          @ ''Buy milk'' @ [CHR 0x22] @ ''}''),
           headers = Some (PlainObject [''Content-Type'' \<mapsto> HeaderString ''application/json''])\<rparr>)],
       jsonReads = 1\<rparr>)"
  by (simp add: createTask_def request_unfold [OF answer_replying] Let_def ok_def readJson_def
      fetchArgs_def serverSide_def localClient_def newApiClient_def withBody_def readToken_def
      mergeHeaders_def bearerHeader_def spreadHeaders_def quoteJSONString_def quoteChar_def)

lemma request_succeeded_window:
  assumes "succeeded (fst (request rt c e opts w))"
  shows "window (snd (request rt c e opts w)) = window w"
proof (cases "answer rt c e opts w")
  case (Inl err)
  then have "fst (request rt c e opts w) = Rejected err"
    by (simp add: request_def answer_def Let_def)
  with assms show ?thesis by (simp add: succeeded_def)
next
  case (Inr r)
  from assms show ?thesis
    by (auto simp: request_unfold[OF Inr] Let_def succeeded_def window_readJson
        split: if_splits sum.splits option.splits)
qed

lemma request_resolves:
  assumes "answer rt c e opts w = Inr r" and "ok r" and "status r \<noteq> 204" and "json r = Some v"
  shows "fst (request rt c e opts w) = Resolved v" and "window (snd (request rt c e opts w)) = window w"
  using assms(2-) by (auto simp: request_unfold[OF assms(1)] Let_def ok_def window_readJson)

lemma invoke_is_request:
  "\<exists>e opts. headers opts = None \<and> invoke rt c call = request rt c e opts"
  by (cases call)
    (auto simp: getTasks_def createTask_def getTaskById_def updateTask_def deleteTask_def
      toggleTaskCompletion_def getTaskStatistics_def register_def login_def noOptions_def
      withBody_def intro!: exI)

lemma bearerHeader_other: "k \<noteq> ''Authorization'' \<Longrightarrow> bearerHeader token k = None"
  by (simp add: bearerHeader_def split: option.splits)

lemma bearerHeader_authorization:
  "map_option headerText (bearerHeader token ''Authorization'') =
     (case token of None \<Rightarrow> None | Some t \<Rightarrow> if t \<noteq> [] then Some (''Bearer '' @ t) else None)"
  by (simp add: bearerHeader_def headerText_def split: option.splits)

lemma authErrorDetail_non_string:
  assumes "detail e = Inr d" and "\<forall>s. d \<noteq> Some (JStr s)"
  shows "authErrorDetail rt e =
     Inr (JSON_stringify rt (case d of None \<Rightarrow> JStr ''Unauthorized''
            | Some v \<Rightarrow> if truthy rt d then v else JStr ''Unauthorized''))"
  using assms by (auto simp: authErrorDetail_def split: option.splits json.splits)

lemma apiErrorDetail_non_string:
  assumes "detail e = Inr d" and "\<forall>s. d \<noteq> Some (JStr s)"
  shows "apiErrorDetail rt r e =
     Inr (case d of None \<Rightarrow> requestFailedMessage r
            | Some v \<Rightarrow> if truthy rt d then JSON_stringify rt v else requestFailedMessage r)"
  using assms by (auto simp: apiErrorDetail_def split: option.splits json.splits)

lemma stringify_Unauthorized:
  "JSON_stringify rt (JStr ''Unauthorized'') = CHR 0x22 # ''Unauthorized'' @ [CHR 0x22]"
  by (simp add: quoteJSONString_def quoteChar_def)

lemma logout_window:
  "window (logout w) = map_option (\<lambda>win. win\<lparr>localStorage :=
      (localStorage win)(''accessToken'' := None, ''refreshToken'' := None)\<rparr>) (window w)"
  by (simp add: logout_def removeTokens_def split: option.splits)

section \<open>The claims\<close>

text \<open>
  Claim C1. On every 401 or 403 the client is to extract a message from the body (a
  generic one when the body is missing or unparsable), remove the access token and the
  refresh token from the storage, navigate to the sign-in route and throw the message.
  The code does this in a browser for every body but one (lemma
  \<open>request_auth_failure\<close>, and \<open>login_bad_credentials_in_browser\<close> for the example
  of the claim). When the body is the JSON text \<^verbatim>\<open>null\<close>, \<^verbatim>\<open>response.json()\<close> resolves
  with \<^verbatim>\<open>null\<close>, so the fallback \<^verbatim>\<open>.catch(() => ({}))\<close> does not apply and the read of
  \<^verbatim>\<open>errorData.detail\<close> throws a \<open>TypeError\<close>: \<^verbatim>\<open>login\<close> answered by 401 with that body
  is rejected with the \<open>TypeError\<close>, keeps both tokens and does not navigate.
\<close>

theorem login_null_body_keeps_tokens:
  "fst (login (replying \<lparr>status = 401, statusText = ''Unauthorized'', json = Some JNull\<rparr>)
          localClient (JObj [(''email'', JStr ''a@b.com''), (''password'', JStr ''x'')])
          (browser [(''accessToken'', ''t''), (''refreshToken'', ''r'')]))
     = Rejected TypeError
   \<and> tokens (snd (login (replying \<lparr>status = 401, statusText = ''Unauthorized'', json = Some JNull\<rparr>)
          localClient (JObj [(''email'', JStr ''a@b.com''), (''password'', JStr ''x'')])
          (browser [(''accessToken'', ''t''), (''refreshToken'', ''r'')])))
     = Some (Some ''t'', Some ''r'')
   \<and> navigations (snd (login (replying \<lparr>status = 401, statusText = ''Unauthorized'', json = Some JNull\<rparr>)
          localClient (JObj [(''email'', JStr ''a@b.com''), (''password'', JStr ''x'')])
          (browser [(''accessToken'', ''t''), (''refreshToken'', ''r'')]))) = []"
  by (simp add: login_def request_auth_failure_null [OF answer_replying] tokens_def navigations_def
      browser_def)

text \<open>
  Claim C2. When the response is a success (status 200 to 299): with status 204 the call
  resolves with no value and \<^verbatim>\<open>response.json()\<close> is not called, whatever the body is; with
  any other success status the call resolves with the parsed body, whatever value that is.
\<close>

theorem request_success:
  assumes "answer rt c e opts w = Inr r" and "ok r"
  shows "(status r = 204 \<longrightarrow>
            fst (request rt c e opts w) = ResolvedUndefined
          \<and> jsonReads (snd (request rt c e opts w)) = jsonReads w)
       \<and> (status r \<noteq> 204 \<longrightarrow> (\<forall>data. json r = Some data \<longrightarrow>
            fst (request rt c e opts w) = Resolved data))"
  using assms(2) by (auto simp: request_unfold[OF assms(1)] Let_def ok_def)

theorem request_success_witness:
  "fst (deleteTask (replying \<lparr>status = 204, statusText = ''No Content'', json = Some (JStr ''text'')\<rparr>)
          localClient 1 (browser [])) = ResolvedUndefined
   \<and> jsonReads (snd (deleteTask (replying \<lparr>status = 204, statusText = ''No Content'', json = Some (JStr ''text'')\<rparr>)
          localClient 1 (browser []))) = 0
   \<and> fst (getTasks (replying \<lparr>status = 200, statusText = ''OK'', json = Some (JArr [JNum 7, JNull])\<rparr>)
          localClient (browser [])) = Resolved (JArr [JNum 7, JNull])"
  using request_success [OF answer_replying, of "\<lparr>status = 204, statusText = ''No Content'', json = Some (JStr ''text'')\<rparr>"
        localClient "''/tasks/'' @ showNat 1" "\<lparr>httpMethod = Some ''DELETE'', body = None, headers = None\<rparr>" "browser []"]
    request_success [OF answer_replying, of "\<lparr>status = 200, statusText = ''OK'', json = Some (JArr [JNum 7, JNull])\<rparr>"
        localClient "''/tasks/''" noOptions "browser []"]
  by (simp add: ok_def deleteTask_def getTasks_def replying_def browser_def showNat.simps)

text \<open>
  Claim C3, amended. Every operation of the client issues exactly one request. In a
  browser whose storage holds a non-empty access token, that request carries the header
  \<^verbatim>\<open>Authorization: Bearer <token>\<close> with that token; when no access token is stored,
  when the stored one is the empty string, or outside a browser, the request carries no
  \<^verbatim>\<open>Authorization\<close> header.
\<close>

theorem every_request_bearer:
  "sentHeaders (snd (invoke rt c call w)) ''Authorization'' =
     (case window w of
        None \<Rightarrow> None
      | Some win \<Rightarrow>
          (case localStorage win ''accessToken'' of
             None \<Rightarrow> None
           | Some t \<Rightarrow> if t \<noteq> [] then Some (''Bearer '' @ t) else None))
   \<and> length (fetched (snd (invoke rt c call w))) = Suc (length (fetched w))"
proof -
  obtain e opts where h: "headers opts = None" and eq: "invoke rt c call = request rt c e opts"
    using invoke_is_request by blast
  show ?thesis
    by (simp add: eq request_sent_headers request_fetched mergeHeaders_def h spreadHeaders_def
        bearerHeader_def headerText_def readToken_def split: option.splits)
qed

theorem every_request_bearer_witness:
  "sentHeaders (snd (invoke (replying \<lparr>status = 200, statusText = ''OK'', json = Some (JArr [])\<rparr>)
       localClient GetTasks (browser [(''accessToken'', ''abc'')]))) ''Authorization''
     = Some ''Bearer abc''
   \<and> sentHeaders (snd (invoke (replying \<lparr>status = 200, statusText = ''OK'', json = Some (JArr [])\<rparr>)
       localClient GetTasks (browser []))) ''Authorization'' = None
   \<and> sentHeaders (snd (invoke (replying \<lparr>status = 200, statusText = ''OK'', json = Some (JArr [])\<rparr>)
       localClient GetTasks serverSide)) ''Authorization'' = None"
  using every_request_bearer [of "replying \<lparr>status = 200, statusText = ''OK'', json = Some (JArr [])\<rparr>"
      localClient GetTasks "browser [(''accessToken'', ''abc'')]"]
    every_request_bearer [of "replying \<lparr>status = 200, statusText = ''OK'', json = Some (JArr [])\<rparr>"
      localClient GetTasks "browser []"]
    every_request_bearer [of "replying \<lparr>status = 200, statusText = ''OK'', json = Some (JArr [])\<rparr>"
      localClient GetTasks serverSide]
  by (simp add: browser_def serverSide_def)

text \<open>
  As first stated the claim promises the header whenever an access token is stored. The
  test \<^verbatim>\<open>token ? ... : {}\<close> is one of truthiness: a browser whose storage holds the empty
  string under \<^verbatim>\<open>accessToken\<close> sends no \<^verbatim>\<open>Authorization\<close> header.
\<close>

theorem empty_token_sends_no_bearer:
  "tokens (browser [(''accessToken'', [])]) = Some (Some [], None)
   \<and> sentHeaders (snd (invoke (replying \<lparr>status = 200, statusText = ''OK'', json = Some (JArr [])\<rparr>)
       localClient GetTasks (browser [(''accessToken'', [])]))) ''Authorization'' = None"
  by (simp add: tokens_def browser_def getTasks_def request_sent_headers mergeHeaders_def
      noOptions_def readToken_def bearerHeader_def spreadHeaders_def)

text \<open>
  Claim C4. When the status is neither a success nor 401 nor 403 (500, say), the client is
  to throw an error that carries the \<^verbatim>\<open>detail\<close> message of the server, or the message
  \<^verbatim>\<open>API request failed: <status> - <statusText>\<close> when the body is missing or unparsable,
  and to leave the storage and the location as they are. The code leaves both as they are
  for every body, and throws those messages for every body but one (lemmas
  \<open>request_other_failure\<close> and \<open>request_other_failure_example\<close>). When the body is the
  JSON text \<^verbatim>\<open>null\<close>, \<^verbatim>\<open>response.json()\<close> resolves with \<^verbatim>\<open>null\<close>, the fallback
  \<^verbatim>\<open>.catch(() => ({}))\<close> does not apply and the read of \<^verbatim>\<open>errorData.detail\<close> (line 93)
  throws a \<open>TypeError\<close>, which carries neither message: the missed case of claim C1, on
  the other failure path.
\<close>

theorem getTasks_null_body_500:
  "fst (getTasks (replying \<lparr>status = 500, statusText = ''Internal Server Error'', json = Some JNull\<rparr>)
          localClient (browser [(''accessToken'', ''t''), (''refreshToken'', ''r'')]))
     = Rejected TypeError
   \<and> tokens (snd (getTasks (replying \<lparr>status = 500, statusText = ''Internal Server Error'', json = Some JNull\<rparr>)
          localClient (browser [(''accessToken'', ''t''), (''refreshToken'', ''r'')])))
     = Some (Some ''t'', Some ''r'')
   \<and> navigations (snd (getTasks (replying \<lparr>status = 500, statusText = ''Internal Server Error'', json = Some JNull\<rparr>)
          localClient (browser [(''accessToken'', ''t''), (''refreshToken'', ''r'')]))) = []"
  by (simp add: getTasks_def request_unfold [OF answer_replying] Let_def ok_def apiErrorDetail_def
      errorData_def readJson_def tokens_def navigations_def browser_def)

text \<open>
  Claim C5, amended. \<^verbatim>\<open>isAuthenticated()\<close> returns true if and only if the call occurs in
  a browser whose storage holds a non-empty access token; outside a browser it returns
  false.
\<close>

theorem isAuthenticated_iff:
  "(isAuthenticated w \<longleftrightarrow>
      (\<exists>win t. window w = Some win \<and> localStorage win ''accessToken'' = Some t \<and> t \<noteq> []))
   \<and> (window w = None \<longrightarrow> \<not> isAuthenticated w)"
  by (auto simp: isAuthenticated_def split: option.splits)

theorem isAuthenticated_iff_witness:
  "isAuthenticated (browser [(''accessToken'', ''abc'')]) \<and> \<not> isAuthenticated serverSide
   \<and> \<not> isAuthenticated (browser [])"
  using isAuthenticated_iff [of "browser [(''accessToken'', ''abc'')]"]
    isAuthenticated_iff [of serverSide] isAuthenticated_iff [of "browser []"]
  by (simp add: browser_def serverSide_def)

text \<open>
  As first stated the claim makes the result true whenever an access token is present in
  the storage. \<^verbatim>\<open>!!localStorage.getItem('accessToken')\<close> is false for the empty string: in
  a browser whose storage holds the empty string under \<^verbatim>\<open>accessToken\<close> the result is
  false.
\<close>

theorem isAuthenticated_empty_token:
  "tokens (browser [(''accessToken'', [])]) = Some (Some [], None)
   \<and> \<not> isAuthenticated (browser [(''accessToken'', [])])"
  by (simp add: tokens_def browser_def isAuthenticated_def)

text \<open>
  Claim C6, amended. The headers of a request are the merge of the default
  \<^verbatim>\<open>Content-Type: application/json\<close>, the bearer \<^verbatim>\<open>Authorization\<close> header when a non-empty
  token was read, and the headers of the caller when they are absent or given as a plain
  object of names and values: every entry of that object is sent with the caller's value
  (so it overrides a default of exactly the same name), and a name the object does not
  have has the bearer value for \<^verbatim>\<open>Authorization\<close>, the default for \<^verbatim>\<open>Content-Type\<close>
  and no value otherwise.
\<close>

theorem request_headers_merge:
  assumes "(headers opts = None \<and> h = Map.empty) \<or> headers opts = Some (PlainObject h)"
  shows "(\<forall>k v. h k = Some v \<longrightarrow>
            sentHeaders (snd (request rt c e opts w)) k = Some (headerText v))
       \<and> (\<forall>k. h k = None \<longrightarrow>
            sentHeaders (snd (request rt c e opts w)) k =
              (if k = ''Authorization'' then
                 (case readToken w of
                    None \<Rightarrow> None
                  | Some t \<Rightarrow> if t \<noteq> [] then Some (''Bearer '' @ t) else None)
               else if k = ''Content-Type'' then Some ''application/json''
               else None))"
proof -
  have sp: "spreadHeaders (headers opts) = h"
    using assms by (auto simp: spreadHeaders_def)
  show ?thesis
    using bearerHeader_authorization [of "readToken w"]
    by (auto simp: request_sent_headers mergeHeaders_def sp map_add_def bearerHeader_other
        headerText_def split: option.splits)
qed

theorem request_headers_merge_witness:
  "sentHeaders (snd (request (replying \<lparr>status = 200, statusText = ''OK'', json = Some JNull\<rparr>)
       localClient ''/tasks/''
       \<lparr>httpMethod = None, body = None,
         headers = Some (PlainObject [''Content-Type'' \<mapsto> HeaderString ''text/plain'',
                                      ''X-Trace'' \<mapsto> HeaderString ''1''])\<rparr>
       (browser [(''accessToken'', ''abc'')]))) ''Content-Type'' = Some ''text/plain''
   \<and> sentHeaders (snd (request (replying \<lparr>status = 200, statusText = ''OK'', json = Some JNull\<rparr>)
       localClient ''/tasks/''
       \<lparr>httpMethod = None, body = None,
         headers = Some (PlainObject [''Content-Type'' \<mapsto> HeaderString ''text/plain'',
                                      ''X-Trace'' \<mapsto> HeaderString ''1''])\<rparr>
       (browser [(''accessToken'', ''abc'')]))) ''Authorization'' = Some ''Bearer abc''
   \<and> sentHeaders (snd (request (replying \<lparr>status = 200, statusText = ''OK'', json = Some JNull\<rparr>)
       localClient ''/tasks/'' noOptions (browser []))) ''Content-Type'' = Some ''application/json''"
  using request_headers_merge [where
      opts = "\<lparr>httpMethod = None, body = None,
         headers = Some (PlainObject [''Content-Type'' \<mapsto> HeaderString ''text/plain'',
                                      ''X-Trace'' \<mapsto> HeaderString ''1''])\<rparr>"
      and h = "[''Content-Type'' \<mapsto> HeaderString ''text/plain'', ''X-Trace'' \<mapsto> HeaderString ''1'']"
      and rt = "replying \<lparr>status = 200, statusText = ''OK'', json = Some JNull\<rparr>"
      and c = localClient and e = "''/tasks/''" and w = "browser [(''accessToken'', ''abc'')]"]
    request_headers_merge [where opts = noOptions and h = Map.empty
      and rt = "replying \<lparr>status = 200, statusText = ''OK'', json = Some JNull\<rparr>"
      and c = localClient and e = "''/tasks/''" and w = "browser []"]
  by (simp add: browser_def noOptions_def readToken_def headerText_def)

text \<open>
  As first stated the claim merges the bearer header in whenever a token exists, and
  merges any headers of the caller. With the empty string stored under \<^verbatim>\<open>accessToken\<close>
  the token that is read exists, and the headers sent are not the merge with
  \<^verbatim>\<open>Authorization: Bearer \<close>: they have no \<^verbatim>\<open>Authorization\<close> entry. And the spread
  \<^verbatim>\<open>...options.headers\<close> copies own enumerable properties only: the header of a caller
  who passes a \<^verbatim>\<open>Headers\<close> instance is not sent, and the pair of a caller who passes an
  array of pairs is sent under the name \<^verbatim>\<open>0\<close>.
\<close>

theorem empty_token_merges_no_bearer:
  "readToken (browser [(''accessToken'', [])]) = Some []
   \<and> sentHeaders (snd (request (replying \<lparr>status = 200, statusText = ''OK'', json = Some JNull\<rparr>)
       localClient ''/tasks/''
       \<lparr>httpMethod = None, body = None,
         headers = Some (PlainObject [''X-Trace'' \<mapsto> HeaderString ''1''])\<rparr>
       (browser [(''accessToken'', [])])))
     \<noteq> [''Content-Type'' \<mapsto> ''application/json''] ++ [''Authorization'' \<mapsto> ''Bearer '' @ []]
         ++ [''X-Trace'' \<mapsto> ''1'']
   \<and> sentHeaders (snd (request (replying \<lparr>status = 200, statusText = ''OK'', json = Some JNull\<rparr>)
       localClient ''/tasks/''
       \<lparr>httpMethod = None, body = None, headers = Some (HeadersInstance [(''X-Trace'', ''1'')])\<rparr>
       (browser [(''accessToken'', ''abc'')]))) ''X-Trace'' = None
   \<and> sentHeaders (snd (request (replying \<lparr>status = 200, statusText = ''OK'', json = Some JNull\<rparr>)
       localClient ''/tasks/''
       \<lparr>httpMethod = None, body = None, headers = Some (PairArray [(''X-Trace'', ''1'')])\<rparr>
       (browser [(''accessToken'', ''abc'')]))) ''X-Trace'' = None
   \<and> sentHeaders (snd (request (replying \<lparr>status = 200, statusText = ''OK'', json = Some JNull\<rparr>)
       localClient ''/tasks/''
       \<lparr>httpMethod = None, body = None, headers = Some (PairArray [(''X-Trace'', ''1'')])\<rparr>
       (browser [(''accessToken'', ''abc'')]))) ''0'' = Some ''X-Trace,1''"
proof -
  have "sentHeaders (snd (request (replying \<lparr>status = 200, statusText = ''OK'', json = Some JNull\<rparr>)
       localClient ''/tasks/''
       \<lparr>httpMethod = None, body = None,
         headers = Some (PlainObject [''X-Trace'' \<mapsto> HeaderString ''1''])\<rparr>
       (browser [(''accessToken'', [])]))) ''Authorization'' = None"
    by (simp add: request_sent_headers mergeHeaders_def readToken_def browser_def bearerHeader_def
        spreadHeaders_def)
  moreover have "([''Content-Type'' \<mapsto> ''application/json''] ++ [''Authorization'' \<mapsto> ''Bearer '' @ []]
         ++ [''X-Trace'' \<mapsto> ''1'']) ''Authorization'' = Some ''Bearer ''"
    by simp
  ultimately have first: "sentHeaders (snd (request (replying \<lparr>status = 200, statusText = ''OK'', json = Some JNull\<rparr>)
       localClient ''/tasks/''
       \<lparr>httpMethod = None, body = None,
         headers = Some (PlainObject [''X-Trace'' \<mapsto> HeaderString ''1''])\<rparr>
       (browser [(''accessToken'', [])])))
     \<noteq> [''Content-Type'' \<mapsto> ''application/json''] ++ [''Authorization'' \<mapsto> ''Bearer '' @ []]
         ++ [''X-Trace'' \<mapsto> ''1'']"
    by auto
  have rest: "sentHeaders (snd (request (replying \<lparr>status = 200, statusText = ''OK'', json = Some JNull\<rparr>)
       localClient ''/tasks/''
       \<lparr>httpMethod = None, body = None, headers = Some (HeadersInstance [(''X-Trace'', ''1'')])\<rparr>
       (browser [(''accessToken'', ''abc'')]))) ''X-Trace'' = None"
    "sentHeaders (snd (request (replying \<lparr>status = 200, statusText = ''OK'', json = Some JNull\<rparr>)
       localClient ''/tasks/''
       \<lparr>httpMethod = None, body = None, headers = Some (PairArray [(''X-Trace'', ''1'')])\<rparr>
       (browser [(''accessToken'', ''abc'')]))) ''X-Trace'' = None"
    "sentHeaders (snd (request (replying \<lparr>status = 200, statusText = ''OK'', json = Some JNull\<rparr>)
       localClient ''/tasks/''
       \<lparr>httpMethod = None, body = None, headers = Some (PairArray [(''X-Trace'', ''1'')])\<rparr>
       (browser [(''accessToken'', ''abc'')]))) ''0'' = Some ''X-Trace,1''"
    by (simp_all add: request_sent_headers mergeHeaders_def readToken_def browser_def
        bearerHeader_def spreadHeaders_def headerText_def showNat.simps)
  show ?thesis
    using first rest by (simp add: readToken_def browser_def)
qed

text \<open>
  Claim C7. \<^verbatim>\<open>logout()\<close> calls \<^verbatim>\<open>fetch\<close> not at all, and after it the storage of the
  browser holds neither the access token nor the refresh token; the other entries of the
  storage and the location are as before.
\<close>

theorem logout_clears_tokens:
  "fetched (logout w) = fetched w
   \<and> (\<forall>win. window (logout w) = Some win \<longrightarrow>
         localStorage win ''accessToken'' = None \<and> localStorage win ''refreshToken'' = None)
   \<and> (\<forall>win. window w = Some win \<longrightarrow>
         (\<exists>win'. window (logout w) = Some win'
            \<and> location_href win' = location_href win
            \<and> (\<forall>k. k \<noteq> ''accessToken'' \<and> k \<noteq> ''refreshToken'' \<longrightarrow>
                  localStorage win' k = localStorage win k)))"
  by (auto simp: logout_window) (simp add: logout_def removeTokens_def split: option.splits)

theorem logout_clears_tokens_witness:
  "tokens (browser [(''accessToken'', ''t''), (''refreshToken'', ''r''), (''theme'', ''dark'')])
     = Some (Some ''t'', Some ''r'')
   \<and> tokens (logout (browser [(''accessToken'', ''t''), (''refreshToken'', ''r''), (''theme'', ''dark'')]))
     = Some (None, None)
   \<and> fetched (logout (browser [(''accessToken'', ''t''), (''refreshToken'', ''r''), (''theme'', ''dark'')])) = []"
  using logout_clears_tokens [of "browser [(''accessToken'', ''t''), (''refreshToken'', ''r''), (''theme'', ''dark'')]"]
  by (auto simp: tokens_def browser_def logout_window)

text \<open>
  Claim C8. \<^verbatim>\<open>register\<close> and \<^verbatim>\<open>login\<close> write nothing to the storage: whenever either
  succeeds, the storage (and the location) is as before, and on a success reply with a JSON
  body each resolves with the parsed body as it is.
\<close>

theorem register_login_do_not_persist:
  "(succeeded (fst (register rt c userData w)) \<longrightarrow>
      window (snd (register rt c userData w)) = window w)
   \<and> (succeeded (fst (login rt c credentials w)) \<longrightarrow>
      window (snd (login rt c credentials w)) = window w)
   \<and> (\<forall>r v. answer rt c ''/auth/register'' (withBody ''POST'' (JSON_stringify rt userData)) w = Inr r
          \<and> ok r \<and> status r \<noteq> 204 \<and> json r = Some v \<longrightarrow>
        fst (register rt c userData w) = Resolved v
        \<and> window (snd (register rt c userData w)) = window w)
   \<and> (\<forall>r v. answer rt c ''/auth/login'' (withBody ''POST'' (JSON_stringify rt credentials)) w = Inr r
          \<and> ok r \<and> status r \<noteq> 204 \<and> json r = Some v \<longrightarrow>
        fst (login rt c credentials w) = Resolved v
        \<and> window (snd (login rt c credentials w)) = window w)"
  unfolding register_def login_def
  using request_succeeded_window request_resolves by blast

theorem register_login_do_not_persist_witness:
  "fst (login (replying \<lparr>status = 200, statusText = ''OK'',
                 json = Some (JObj [(''access_token'', JStr ''A1''), (''refresh_token'', JStr ''R1''),
                                    (''token_type'', JStr ''bearer'')])\<rparr>)
          localClient (JObj [(''email'', JStr ''a@b.com''), (''password'', JStr ''x'')]) (browser []))
     = Resolved (JObj [(''access_token'', JStr ''A1''), (''refresh_token'', JStr ''R1''),
                       (''token_type'', JStr ''bearer'')])
   \<and> tokens (snd (login (replying \<lparr>status = 200, statusText = ''OK'',
                 json = Some (JObj [(''access_token'', JStr ''A1''), (''refresh_token'', JStr ''R1''),
                                    (''token_type'', JStr ''bearer'')])\<rparr>)
          localClient (JObj [(''email'', JStr ''a@b.com''), (''password'', JStr ''x'')]) (browser [])))
     = Some (None, None)"
  using register_login_do_not_persist [of
      "replying \<lparr>status = 200, statusText = ''OK'',
                 json = Some (JObj [(''access_token'', JStr ''A1''), (''refresh_token'', JStr ''R1''),
                                    (''token_type'', JStr ''bearer'')])\<rparr>"
      localClient JNull "browser []" "JObj [(''email'', JStr ''a@b.com''), (''password'', JStr ''x'')]"]
  by (simp add: answer_replying ok_def tokens_def) (simp add: browser_def)

text \<open>
  Claim C9, amended. On 401 or 403 the removal of the tokens is guarded by the check of
  \<^verbatim>\<open>window\<close> and the assignment to \<^verbatim>\<open>window.location.href\<close> is not. Outside a browser the
  removal does nothing and the assignment throws a \<open>ReferenceError\<close>: the call never
  completes the sequence of removing, navigating and throwing the message, and whenever a
  message was extracted (the body is not the JSON text \<^verbatim>\<open>null\<close>) it fails at the
  navigation step, rejected with that \<open>ReferenceError\<close>.
\<close>

theorem auth_failure_outside_browser:
  assumes "window w = None" and "answer rt c e opts w = Inr r"
    and "status r = 401 \<or> status r = 403"
  shows "removeTokens w = w
       \<and> assignLocationHref ''/auth/signin'' w = Inl ReferenceError
       \<and> (\<forall>m. fst (request rt c e opts w) \<noteq> Rejected (Error m))
       \<and> (json r \<noteq> Some JNull \<longrightarrow> fst (request rt c e opts w) = Rejected ReferenceError)
       \<and> window (snd (request rt c e opts w)) = None"
proof -
  have clear: "removeTokens w = w" and nav: "assignLocationHref ''/auth/signin'' w = Inl ReferenceError"
    using assms(1) by (simp_all add: removeTokens_def assignLocationHref_def)
  show ?thesis
  proof (cases "json r = Some JNull")
    case True
    from request_auth_failure_null [OF assms(2,3) True] clear nav assms(1) True
    show ?thesis by simp
  next
    case False
    then obtain d where d: "detail (errorData r) = Inr d"
      using detail_errorData_total by blast
    then obtain msg where "authErrorDetail rt (errorData r) = Inr msg"
      by (simp add: authErrorDetail_def)
    from request_auth_failure [OF assms(2,3) this] clear nav assms(1) False
    show ?thesis by simp
  qed
qed

theorem auth_failure_outside_browser_witness:
  "fst (login (replying \<lparr>status = 401, statusText = ''Unauthorized'',
                 json = Some (JObj [(''detail'', JStr ''bad credentials'')])\<rparr>)
          localClient (JObj [(''email'', JStr ''a@b.com''), (''password'', JStr ''x'')]) serverSide)
     = Rejected ReferenceError
   \<and> removeTokens serverSide = serverSide"
  using auth_failure_outside_browser [OF _ answer_replying,
        of serverSide "\<lparr>status = 401, statusText = ''Unauthorized'',
                 json = Some (JObj [(''detail'', JStr ''bad credentials'')])\<rparr>"
        localClient "''/auth/login''"
        "withBody ''POST'' (JSON_stringify (replying \<lparr>status = 401, statusText = ''Unauthorized'',
                 json = Some (JObj [(''detail'', JStr ''bad credentials'')])\<rparr>)
             (JObj [(''email'', JStr ''a@b.com''), (''password'', JStr ''x'')]))"]
  by (simp add: login_def serverSide_def)

text \<open>
  As first stated the claim lets every 401 or 403 outside a browser fail at the navigation
  step. When the body is the JSON text \<^verbatim>\<open>null\<close> the call does not reach that step: the
  read of \<^verbatim>\<open>errorData.detail\<close> (line 74) throws a \<open>TypeError\<close> first.
\<close>

theorem null_body_outside_browser_fails_earlier:
  "fst (login (replying \<lparr>status = 401, statusText = ''Unauthorized'', json = Some JNull\<rparr>)
          localClient (JObj [(''email'', JStr ''a@b.com''), (''password'', JStr ''x'')]) serverSide)
     = Rejected TypeError
   \<and> fst (login (replying \<lparr>status = 401, statusText = ''Unauthorized'', json = Some JNull\<rparr>)
          localClient (JObj [(''email'', JStr ''a@b.com''), (''password'', JStr ''x'')]) serverSide)
     \<noteq> Rejected ReferenceError"
  by (simp add: login_def request_auth_failure_null [OF answer_replying])

text \<open>
  Claim C10, amended. Let the body of an error response give no string as \<^verbatim>\<open>detail\<close>: the
  body is missing or unparsable, or it parses to a value other than \<^verbatim>\<open>null\<close> that has
  no \<^verbatim>\<open>detail\<close> or whose \<^verbatim>\<open>detail\<close> is not a string. A truthy \<^verbatim>\<open>detail\<close> (an object, an array, \<^verbatim>\<open>true\<close>, a number other than zero)
  yields its JSON serialization as the message, on 401 and 403 (in a browser) and on the
  other failures alike. A missing or falsy \<^verbatim>\<open>detail\<close> (\<^verbatim>\<open>null\<close>, \<^verbatim>\<open>false\<close>, zero) is
  not serialized: on 401 and 403 (in a browser) the message is the JSON serialization of
  the string \<^verbatim>\<open>Unauthorized\<close>, which begins and ends with a quote character, and on the
  other failures it is \<^verbatim>\<open>API request failed: <status> - <statusText>\<close>.
\<close>

theorem error_message_serialization:
  assumes "answer rt c e opts w = Inr r" and "detail (errorData r) = Inr d"
    and "\<forall>s. d \<noteq> Some (JStr s)"
  shows "((status r = 401 \<or> status r = 403) \<and> window w \<noteq> None \<and> \<not> truthy rt d \<longrightarrow>
            fst (request rt c e opts w) = Rejected (Error (JSON_stringify rt (JStr ''Unauthorized'')))
            \<and> JSON_stringify rt (JStr ''Unauthorized'') = CHR 0x22 # ''Unauthorized'' @ [CHR 0x22])
       \<and> (\<forall>v. (status r = 401 \<or> status r = 403) \<and> window w \<noteq> None \<and> d = Some v \<and> truthy rt d \<longrightarrow>
            fst (request rt c e opts w) = Rejected (Error (JSON_stringify rt v)))
       \<and> (\<forall>v. \<not> ok r \<and> status r \<noteq> 401 \<and> status r \<noteq> 403 \<and> d = Some v \<and> truthy rt d \<longrightarrow>
            fst (request rt c e opts w) = Rejected (Error (JSON_stringify rt v)))
       \<and> (\<not> ok r \<and> status r \<noteq> 401 \<and> status r \<noteq> 403 \<and> \<not> truthy rt d \<longrightarrow>
            fst (request rt c e opts w) = Rejected (Error (requestFailedMessage r)))
       \<and> (json r = None \<longrightarrow> d = None)"
proof -
  note a = authErrorDetail_non_string [OF assms(2,3), of rt]
  note b = apiErrorDetail_non_string [OF assms(2,3), of rt r]
  have auth: "(status r = 401 \<or> status r = 403) \<and> window w \<noteq> None \<Longrightarrow>
      fst (request rt c e opts w) = Rejected (Error (JSON_stringify rt
         (case d of None \<Rightarrow> JStr ''Unauthorized''
            | Some v \<Rightarrow> if truthy rt d then v else JStr ''Unauthorized'')))"
    using request_auth_failure [OF assms(1) _ a] by (auto split: option.splits)
  have other: "\<not> ok r \<and> status r \<noteq> 401 \<and> status r \<noteq> 403 \<Longrightarrow>
      fst (request rt c e opts w) = Rejected (Error (case d of None \<Rightarrow> requestFailedMessage r
            | Some v \<Rightarrow> if truthy rt d then JSON_stringify rt v else requestFailedMessage r))"
    by (simp add: request_unfold[OF assms(1)] Let_def b)
  have missing: "json r = None \<longrightarrow> d = None"
    using assms(2) by (auto simp: errorData_def)
  show ?thesis
    using auth other missing stringify_Unauthorized [of rt]
    by (cases d) auto
qed

theorem error_message_serialization_witness:
  "fst (getTasks (replying \<lparr>status = 401, statusText = ''Unauthorized'', json = None\<rparr>)
          localClient (browser [(''accessToken'', ''t'')]))
     = Rejected (Error (CHR 0x22 # ''Unauthorized'' @ [CHR 0x22]))
   \<and> fst (getTasks (replying \<lparr>status = 422, statusText = ''Unprocessable Entity'',
             json = Some (JObj [(''detail'', JArr [JObj [(''msg'', JStr ''field required'')]])])\<rparr>)
          localClient (browser [(''accessToken'', ''t'')]))
     = Rejected (Error (''[{'' @ [CHR 0x22] @ ''msg'' @ [CHR 0x22] @ '':'' @ [CHR 0x22]
                          @ ''field required'' @ [CHR 0x22] @ ''}]''))"
  using error_message_serialization [OF answer_replying, where d = None
      and r = "\<lparr>status = 401, statusText = ''Unauthorized'', json = None\<rparr>"
      and c = localClient and e = "''/tasks/''" and opts = noOptions
      and w = "browser [(''accessToken'', ''t'')]"]
    error_message_serialization [OF answer_replying,
      where d = "Some (JArr [JObj [(''msg'', JStr ''field required'')]])"
      and r = "\<lparr>status = 422, statusText = ''Unprocessable Entity'',
             json = Some (JObj [(''detail'', JArr [JObj [(''msg'', JStr ''field required'')]])])\<rparr>"
      and c = localClient and e = "''/tasks/''" and opts = noOptions
      and w = "browser [(''accessToken'', ''t'')]"]
  by (simp add: errorData_def getTasks_def browser_def ok_def quoteJSONString_def quoteChar_def)

text \<open>
  As first stated the claim serializes every \<^verbatim>\<open>detail\<close> that is not a string, on every
  error path. The tests \<^verbatim>\<open>errorData.detail || 'Unauthorized'\<close> and
  \<^verbatim>\<open>errorData.detail ? ... : ...\<close> are of truthiness: a 500 whose body is
  \<^verbatim>\<open>{"detail": false}\<close> is rejected with the synthesized message, not with \<^verbatim>\<open>false\<close>.
\<close>

theorem falsy_detail_is_not_serialized:
  "fst (getTasks (replying \<lparr>status = 500, statusText = ''Internal Server Error'',
             json = Some (JObj [(''detail'', JBool False)])\<rparr>)
          localClient (browser []))
     = Rejected (Error ''API request failed: 500 - Internal Server Error'')
   \<and> JSON_stringify (replying \<lparr>status = 500, statusText = ''Internal Server Error'',
             json = Some (JObj [(''detail'', JBool False)])\<rparr>) (JBool False) = ''false''"
  by (simp add: getTasks_def request_unfold [OF answer_replying] Let_def ok_def apiErrorDetail_def
      errorData_def requestFailedMessage_def showNat.simps)

end
